theory Spec2Isabelle
  imports Complex_Main "HOL-Library.Multiset"
begin

section \<open>Python values used by both services\<close>

text \<open>
  Text is modelled as \<^typ>\<open>string\<close>; one \<^typ>\<open>char\<close> stands for one code point below 256,
  so \<open>length\<close> is Python's \<open>len\<close> on such text. \<open>isspace\<close> is \<open>str.isspace\<close> restricted to
  these code points: U+0009..U+000D, U+001C..U+0020, U+0085 and U+00A0.
\<close>

definition isspace :: "char \<Rightarrow> bool" where
  "isspace c = (let n = (of_char c :: nat)
                in (9 \<le> n \<and> n \<le> 13) \<or> (28 \<le> n \<and> n \<le> 32) \<or> n = 133 \<or> n = 160)"

text \<open>\<open>s.strip()\<close>: whitespace removed at both ends.\<close>

definition strip :: "string \<Rightarrow> string" where
  "strip s = rev (dropWhile isspace (rev (dropWhile isspace s)))"

text \<open>
  \<open>s.split()\<close> with no separator: the maximal runs of non-whitespace characters, in order.
  The second argument of \<open>split_from\<close> is the run read so far.
\<close>

fun split_from :: "string \<Rightarrow> string \<Rightarrow> string list" where
  "split_from [] cur = (if cur = [] then [] else [cur])"
| "split_from (c # cs) cur =
     (if isspace c then (if cur = [] then split_from cs [] else cur # split_from cs [])
      else split_from cs (cur @ [c]))"

definition split :: "string \<Rightarrow> string list" where
  "split s = split_from s []"

text \<open>\<open>int(x)\<close> on a float: truncation towards zero. Floats are modelled by their real value.\<close>

definition py_int :: "real \<Rightarrow> int" where
  "py_int x = (if 0 \<le> x then \<lfloor>x\<rfloor> else \<lceil>x\<rceil>)"

text \<open>\<open>str(n)\<close> for a non-negative integer: its decimal digits.\<close>

fun str_nat :: "nat \<Rightarrow> string" where
  "str_nat n = (if n < 10 then [char_of (48 + n)]
                else str_nat (n div 10) @ [char_of (48 + n mod 10)])"

declare str_nat.simps [simp del]

definition newline :: string where
  "newline = [CHR 0x0A]"

definition apostrophe :: string where
  "apostrophe = [CHR 0x27]"

section \<open>The AI service (\<open>ai-service/main.py\<close>)\<close>

text \<open>\<open>ChatMessage\<close>: the pydantic model of one history entry.\<close>

record ChatMessage =
  content :: string
  role :: string

text \<open>The dictionary \<open>generate_response\<close> returns; its four keys are always present.\<close>

record ai_response =
  r_content :: string
  r_tokens_used :: int
  r_model :: string
  r_response_time_ms :: int

text \<open>\<open>genai.types.GenerationConfig\<close> as built at lines 133-138.\<close>

record GenerationConfig =
  gc_temperature :: real
  max_output_tokens :: int
  top_p :: real
  top_k :: int

text \<open>
  A Python call either returns a value or raises an exception; \<open>Raise e\<close> carries \<open>str(e)\<close>.
\<close>

datatype 'a outcome = Raise string | Return 'a

text \<open>
  \<open>AIService\<close>: \<open>model_name\<close> and \<open>model\<close>. \<open>model\<close> is \<open>None\<close> when no API key is configured.
  Otherwise it is the Gemini client, a library object outside the repository: it is a
  parameter that maps the prompt and the configuration to what
  \<open>generate_content(...)\<close> followed by \<open>response.text\<close> does, a raised exception or
  the reply text.
\<close>

record AIService =
  model_name :: string
  model :: "(string \<Rightarrow> GenerationConfig \<Rightarrow> string outcome) option"

text \<open>\<open>_prepare_context\<close>, lines 161-180. The \<open>for\<close> loop over the slice is \<open>history_parts\<close>.\<close>

definition role_label :: "ChatMessage \<Rightarrow> string" where
  "role_label msg = (if role msg = ''user'' then ''Human'' else ''Assistant'')"

primrec history_parts :: "ChatMessage list \<Rightarrow> string list" where
  "history_parts [] = []"
| "history_parts (msg # rest) =
     (role_label msg @ '': '' @ content msg @ newline) # history_parts rest"

text \<open>\<open>conversation_history[-10:]\<close>: the last ten entries, all of them when there are fewer.\<close>

definition last_10 :: "'a list \<Rightarrow> 'a list" where
  "last_10 xs = drop (length xs - 10) xs"

definition prepare_context :: "ChatMessage list \<Rightarrow> string \<Rightarrow> string" where
  "prepare_context conversation_history current_message =
     concat
       ([''You are a helpful AI assistant in a chat platform. '',
         ''Provide clear, helpful, and engaging responses. '',
         ''Be concise but informative.'' @ newline @ newline]
        @ (if conversation_history \<noteq> []
           then [''Previous conversation:'' @ newline]
                @ history_parts (last_10 conversation_history)
                @ [newline]
           else [])
        @ [''Human: '' @ current_message @ newline @ ''Assistant:''])"

text \<open>
  \<open>_generate_mock_response\<close>, lines 182-202. \<open>start_time\<close> and \<open>now\<close> are the readings of
  \<open>time.time()\<close> at entry of \<open>generate_response\<close> and inside this function.
\<close>

definition mock_responses :: "string \<Rightarrow> string list" where
  "mock_responses message =
     [''I'm a mock AI assistant. To get real responses, please configure your GEMINI_API_KEY.'',
      ''This is a demo response from the AI service. The system is working correctly!'',
      ''Hello! I'm responding from the AI microservice. Please set up Gemini API for real AI responses.'',
      ''You said: '' @ apostrophe @ message @ apostrophe
        @ ''. I'm a placeholder response until Gemini API is configured.'']"

definition generate_mock_response :: "string \<Rightarrow> real \<Rightarrow> real \<Rightarrow> ai_response" where
  "generate_mock_response message start_time now =
     (let response_index = length message mod length (mock_responses message);
          response_content = mock_responses message ! response_index;
          response_time_ms = py_int ((now - start_time) * 1000)
      in \<lparr> r_content = response_content,
           r_tokens_used = int (length (split response_content)) + int (length (split message)),
           r_model = ''mock-model'',
           r_response_time_ms = response_time_ms \<rparr>)"

text \<open>\<open>_generate_error_response\<close>, lines 204-213.\<close>

definition generate_error_response :: "AIService \<Rightarrow> string \<Rightarrow> real \<Rightarrow> real \<Rightarrow> ai_response" where
  "generate_error_response self error start_time now =
     (let response_time_ms = py_int ((now - start_time) * 1000)
      in \<lparr> r_content = ''I apologize, but I encountered an error: '' @ error
                         @ ''. Please try again later.'',
           r_tokens_used = 20,
           r_model = (if model_name self \<noteq> [] then model_name self else ''error-model''),
           r_response_time_ms = response_time_ms \<rparr>)"

text \<open>
  \<open>generate_response\<close>, lines 114-159. \<open>generate_response_try\<close> is the body of the \<open>try\<close>
  block, which returns or raises; \<open>generate_response\<close> adds the \<open>except Exception\<close>
  handler. \<open>start_time\<close> is the first reading of \<open>time.time()\<close> and \<open>now\<close> the second one,
  which every path takes exactly once.
\<close>

definition generate_response_try ::
  "AIService \<Rightarrow> string \<Rightarrow> ChatMessage list \<Rightarrow> real \<Rightarrow> int \<Rightarrow> real \<Rightarrow> real \<Rightarrow> ai_response outcome"
where
  "generate_response_try self message conversation_history temperature max_tokens start_time now =
     (case model self of
        None \<Rightarrow> Return (generate_mock_response message start_time now)
      | Some generate_content \<Rightarrow>
          (let context = prepare_context conversation_history message;
               generation_config = \<lparr> gc_temperature = temperature, max_output_tokens = max_tokens,
                                     top_p = 0.8, top_k = 40 \<rparr>
           in case generate_content context generation_config of
                Raise e \<Rightarrow> Raise e
              | Return text \<Rightarrow>
                  (let tokens_used = int (length (split text)) + int (length (split message));
                       response_time_ms = py_int ((now - start_time) * 1000)
                   in Return \<lparr> r_content = text, r_tokens_used = tokens_used,
                                r_model = model_name self,
                                r_response_time_ms = response_time_ms \<rparr>)))"

definition generate_response ::
  "AIService \<Rightarrow> string \<Rightarrow> ChatMessage list \<Rightarrow> real \<Rightarrow> int \<Rightarrow> real \<Rightarrow> real \<Rightarrow> ai_response outcome"
where
  "generate_response self message conversation_history temperature max_tokens start_time now =
     (case generate_response_try self message conversation_history temperature max_tokens
             start_time now of
        Return r \<Rightarrow> Return r
      | Raise e \<Rightarrow> Return (generate_error_response self e start_time now))"

section \<open>The persisted data (\<open>backend/chat/models.py\<close>)\<close>

text \<open>
  A UUID is modelled by its canonical text, so \<open>str(u)\<close> is \<open>u\<close> itself. A point in
  time (\<open>time.time()\<close>, \<open>timezone.now()\<close>) is a real number of seconds. A nullable
  column is an \<open>option\<close>.
\<close>

type_synonym uuid = string

record Conversation =
  conv_id :: uuid
  conv_user :: "uuid option"
  conv_guest_session_id :: "string option"
  title :: string
  conv_created_at :: real
  conv_updated_at :: real

datatype json = JInt int | JFloat real | JStr string

record Message =
  msg_id :: uuid
  msg_conversation :: uuid
  msg_content :: string
  msg_role :: string
  metadata :: "(string \<times> json) list"
  msg_created_at :: real

record APIUsage =
  usage_id :: uuid
  usage_user :: "uuid option"
  usage_guest_session_id :: "string option"
  endpoint :: string
  tokens_used :: int
  response_time_ms :: "int option"
  status_code :: "int option"
  usage_created_at :: real

text \<open>The three tables, each in insertion order.\<close>

record database =
  conversations :: "Conversation list"
  messages :: "Message list"
  api_usage :: "APIUsage list"

text \<open>
  The world a request runs in: the database, the number of clock readings taken so far
  and the number of random identifiers drawn so far.
\<close>

record world =
  db :: database
  ticks :: nat
  draws :: nat

text \<open>
  What lies outside the repository is a parameter: the wall clock (\<open>clock k\<close> is its
  reading number \<open>k\<close>), the generators of random identifiers (\<open>uuid4 k\<close> and
  \<open>new_session_key k\<close> are the values of draw number \<open>k\<close>) and the HTTP exchange
  with the AI service (\<open>post\<close>, defined below). Writes to the database are taken to
  succeed; database errors are not modelled.
\<close>

record ChatPayload =
  p_message :: string
  p_conversation_history :: "ChatMessage list"
  p_temperature :: real
  p_max_tokens :: int

text \<open>
  The JSON object of a 200 reply, as the view reads it: \<open>['content']\<close> raises \<open>KeyError\<close>
  when the key is absent, \<open>.get('tokens_used', 0)\<close> and \<open>.get('model', 'gemini')\<close> have
  defaults.
\<close>

record ai_json =
  j_content :: "string option"
  j_tokens_used :: "int option"
  j_model :: "string option"

text \<open>
  What \<open>requests.post(...)\<close> does: it raises (time-out, connection error) or it returns a
  response with \<open>status_code\<close>, \<open>text\<close> and the behaviour of \<open>response.json()\<close>.
\<close>

datatype http_result =
    Transport_error string
  | Http_response nat string "ai_json outcome"

record env =
  clock :: "nat \<Rightarrow> real"
  uuid4 :: "nat \<Rightarrow> uuid"
  new_session_key :: "nat \<Rightarrow> string"
  post :: "ChatPayload \<Rightarrow> http_result"

definition read_clock :: "env \<Rightarrow> world \<Rightarrow> real \<times> world" where
  "read_clock e w = (clock e (ticks w), w\<lparr>ticks := Suc (ticks w)\<rparr>)"

definition draw_uuid :: "env \<Rightarrow> world \<Rightarrow> uuid \<times> world" where
  "draw_uuid e w = (uuid4 e (draws w), w\<lparr>draws := Suc (draws w)\<rparr>)"

text \<open>
  \<open>Conversation.objects.create(**data)\<close>: \<open>id\<close> defaults to \<open>uuid.uuid4\<close>, \<open>created_at\<close>
  (\<open>auto_now_add\<close>) and \<open>updated_at\<close> (\<open>auto_now\<close>) each take a reading of the clock.
\<close>

definition Conversation_create ::
  "env \<Rightarrow> uuid option \<Rightarrow> string option \<Rightarrow> string \<Rightarrow> world \<Rightarrow> Conversation \<times> world"
where
  "Conversation_create e user guest_session_id ttl w =
     (case draw_uuid e w of (new_id, w1) \<Rightarrow>
      case read_clock e w1 of (created, w2) \<Rightarrow>
      case read_clock e w2 of (updated, w3) \<Rightarrow>
        (let c = \<lparr> conv_id = new_id, conv_user = user, conv_guest_session_id = guest_session_id,
                   title = ttl, conv_created_at = created, conv_updated_at = updated \<rparr>
         in (c, w3\<lparr>db := (db w3)\<lparr>conversations := conversations (db w3) @ [c]\<rparr>\<rparr>)))"

text \<open>
  \<open>Message.save\<close>, lines 94-98, for a new message (\<open>Message.objects.create\<close>):
  \<open>super().save()\<close> inserts the row, with \<open>id\<close> from \<open>uuid.uuid4\<close> and \<open>created_at\<close> from
  the clock; line 97 reads the clock into the in-memory conversation; line 98 writes the
  column \<open>updated_at\<close> of the row whose primary key is the conversation's, and since
  that column is \<open>auto_now\<close> the value written is a further reading of the clock.
\<close>

definition touch :: "uuid \<Rightarrow> real \<Rightarrow> Conversation \<Rightarrow> Conversation" where
  "touch cid t c = (if conv_id c = cid then c\<lparr>conv_updated_at := t\<rparr> else c)"

definition Message_create ::
  "env \<Rightarrow> uuid \<Rightarrow> string \<Rightarrow> string \<Rightarrow> (string \<times> json) list \<Rightarrow> world \<Rightarrow> Message \<times> world"
where
  "Message_create e conversation cont rl meta w =
     (case draw_uuid e w of (new_id, w1) \<Rightarrow>
      case read_clock e w1 of (created, w2) \<Rightarrow>
        (let m = \<lparr> msg_id = new_id, msg_conversation = conversation, msg_content = cont,
                   msg_role = rl, metadata = meta, msg_created_at = created \<rparr>;
             w3 = w2\<lparr>db := (db w2)\<lparr>messages := messages (db w2) @ [m]\<rparr>\<rparr>
         in case read_clock e w3 of (assigned, w4) \<Rightarrow>
            case read_clock e w4 of (written, w5) \<Rightarrow>
              (m, w5\<lparr>db := (db w5)\<lparr>conversations :=
                                     map (touch conversation written) (conversations (db w5))\<rparr>\<rparr>)))"

text \<open>\<open>APIUsage.objects.create(**usage_data)\<close>.\<close>

definition APIUsage_create ::
  "env \<Rightarrow> uuid option \<Rightarrow> string option \<Rightarrow> string \<Rightarrow> int \<Rightarrow> int \<Rightarrow> int \<Rightarrow> world
    \<Rightarrow> APIUsage \<times> world"
where
  "APIUsage_create e user guest_session_id ep tokens ms status w =
     (case draw_uuid e w of (new_id, w1) \<Rightarrow>
      case read_clock e w1 of (created, w2) \<Rightarrow>
        (let u = \<lparr> usage_id = new_id, usage_user = user,
                   usage_guest_session_id = guest_session_id, endpoint = ep,
                   tokens_used = tokens, response_time_ms = Some ms,
                   status_code = Some status, usage_created_at = created \<rparr>
         in (u, w2\<lparr>db := (db w2)\<lparr>api_usage := api_usage (db w2) @ [u]\<rparr>\<rparr>)))"

text \<open>
  \<open>conversation.messages\<close> in the order of \<open>created_at\<close> (\<open>order_by('created_at')\<close> and
  the default ordering of \<open>Message\<close>). Rows with equal \<open>created_at\<close> keep their insertion
  order.
\<close>

definition conversation_messages :: "uuid \<Rightarrow> world \<Rightarrow> Message list" where
  "conversation_messages cid w =
     sort_key msg_created_at (filter (\<lambda>m. msg_conversation m = cid) (messages (db w)))"

text \<open>
  \<open>queryset.get(...)\<close> inside \<open>get_object_or_404\<close>: no row gives \<open>Http404\<close>, one row is
  returned, several rows raise \<open>MultipleObjectsReturned\<close>.
\<close>

datatype 'a lookup = Http404 | MultipleObjectsReturned | Found 'a

fun get_object_or_404 :: "'a list \<Rightarrow> 'a lookup" where
  "get_object_or_404 [] = Http404"
| "get_object_or_404 [x] = Found x"
| "get_object_or_404 (x # y # rest) = MultipleObjectsReturned"

section \<open>The request serializer (\<open>backend/chat/serializers.py\<close>)\<close>

text \<open>
  The body of a chat request; \<open>None\<close> is an absent key. \<open>message\<close> is required, the
  other fields are optional. The fields are typed: a body whose \<open>temperature\<close> is no
  number, or whose \<open>conversation_id\<close> is no UUID, is not represented. A float is
  modelled by its real value.
\<close>

record chat_data =
  d_message :: "string option"
  d_conversation_id :: "uuid option"
  d_temperature :: "real option"
  d_max_tokens :: "int option"

record validated_data =
  v_message :: string
  v_conversation_id :: "uuid option"
  v_temperature :: real
  v_max_tokens :: int

datatype field_error = Required | Blank | Max_length | Min_value | Max_value | Invalid string

text \<open>
  \<open>message = CharField(max_length=2000)\<close> followed by \<open>validate_message\<close>, lines 71 and
  76-80. A \<open>CharField\<close> trims whitespace and refuses a blank value by default, and its
  length validator sees the trimmed value.
\<close>

definition validate_message :: "string \<Rightarrow> field_error + string" where
  "validate_message v = (if strip v = [] then Inl (Invalid ''Message cannot be empty'')
                         else Inr (strip v))"

definition message_field :: "string option \<Rightarrow> field_error + string" where
  "message_field raw =
     (case raw of
        None \<Rightarrow> Inl Required
      | Some text \<Rightarrow>
          if strip text = [] then Inl Blank
          else if length (strip text) > 2000 then Inl Max_length
          else validate_message (strip text))"

text \<open>\<open>temperature = FloatField(min_value=0.0, max_value=2.0, default=0.7)\<close>, line 73.\<close>

definition temperature_field :: "real option \<Rightarrow> field_error + real" where
  "temperature_field raw =
     (case raw of
        None \<Rightarrow> Inr 0.7
      | Some t \<Rightarrow> if t < 0 then Inl Min_value else if t > 2 then Inl Max_value else Inr t)"

text \<open>\<open>max_tokens = IntegerField(min_value=1, max_value=4000, default=1000)\<close>, line 74.\<close>

definition max_tokens_field :: "int option \<Rightarrow> field_error + int" where
  "max_tokens_field raw =
     (case raw of
        None \<Rightarrow> Inr 1000
      | Some n \<Rightarrow> if n < 1 then Inl Min_value else if n > 4000 then Inl Max_value else Inr n)"

definition field_errors :: "string \<Rightarrow> field_error + 'a \<Rightarrow> (string \<times> field_error) list" where
  "field_errors name r = (case r of Inl err \<Rightarrow> [(name, err)] | Inr v \<Rightarrow> [])"

text \<open>
  \<open>ChatRequestSerializer(data=...)\<close>: \<open>Inr\<close> is \<open>validated_data\<close> when \<open>is_valid()\<close> holds,
  \<open>Inl\<close> is \<open>serializer.errors\<close>, the failing fields with their errors.
\<close>

definition ChatRequestSerializer :: "chat_data \<Rightarrow> (string \<times> field_error) list + validated_data" where
  "ChatRequestSerializer d =
     (case (message_field (d_message d), temperature_field (d_temperature d),
            max_tokens_field (d_max_tokens d)) of
        (Inr m, Inr t, Inr n) \<Rightarrow>
          Inr \<lparr> v_message = m, v_conversation_id = d_conversation_id d,
                v_temperature = t, v_max_tokens = n \<rparr>
      | (m, t, n) \<Rightarrow>
          Inl (field_errors ''message'' m @ field_errors ''temperature'' t
               @ field_errors ''max_tokens'' n))"

section \<open>The views (\<open>backend/chat/views.py\<close>)\<close>

text \<open>
  The session of a client: its key and the entry \<open>guest_session_id\<close> of its dictionary
  (\<open>None\<close> when absent). A request carries the authenticated user's id (\<open>None\<close> for an
  anonymous caller) and the session.
\<close>

record session =
  session_key :: "string option"
  guest_session_id :: "string option"

record request =
  user :: "uuid option"
  session :: session

text \<open>What a view answers; \<open>Uncaught\<close> is an exception that leaves the view.\<close>

datatype 'a response =
    OK 'a
  | Bad_Request "(string \<times> field_error) list"
  | Not_Found
  | Server_Error string
  | Uncaught string

text \<open>
  \<open>get_or_create_guest_session\<close>, lines 46-57. \<open>session.create()\<close> gives the session a
  new key; \<open>not session_id\<close> holds for \<open>None\<close> and for the empty string.
\<close>

definition session_create :: "env \<Rightarrow> session \<Rightarrow> world \<Rightarrow> session \<times> world" where
  "session_create e s w =
     (s\<lparr>session_key := Some (new_session_key e (draws w))\<rparr>, w\<lparr>draws := Suc (draws w)\<rparr>)"

definition new_guest_session_id :: "env \<Rightarrow> session \<Rightarrow> world \<Rightarrow> string \<times> session \<times> world" where
  "new_guest_session_id e s w =
     (case draw_uuid e w of (session_id, w1) \<Rightarrow>
        (session_id, s\<lparr>guest_session_id := Some session_id\<rparr>, w1))"

definition get_or_create_guest_session :: "env \<Rightarrow> session \<Rightarrow> world \<Rightarrow> string \<times> session \<times> world" where
  "get_or_create_guest_session e s w =
     (case (if session_key s = None \<or> session_key s = Some [] then session_create e s w
            else (s, w)) of
        (s1, w1) \<Rightarrow>
          (case guest_session_id s1 of
             None \<Rightarrow> new_guest_session_id e s1 w1
           | Some session_id \<Rightarrow>
               if session_id = [] then new_guest_session_id e s1 w1
               else (session_id, s1, w1)))"

text \<open>\<open>get_queryset\<close>, lines 35-44: the caller's conversations.\<close>

definition get_queryset :: "env \<Rightarrow> request \<Rightarrow> world \<Rightarrow> Conversation list \<times> session \<times> world" where
  "get_queryset e rq w =
     (case user rq of
        None \<Rightarrow>
          (case get_or_create_guest_session e (session rq) w of
             (session_id, s1, w1) \<Rightarrow>
               (filter (\<lambda>c. conv_guest_session_id c = Some session_id) (conversations (db w1)),
                s1, w1))
      | Some u \<Rightarrow> (filter (\<lambda>c. conv_user c = Some u) (conversations (db w)), session rq, w))"


text \<open>
  \<open>get_object\<close> of the viewset: the row of \<open>get_queryset()\<close> with the primary key of the
  URL, or \<open>Http404\<close>.
\<close>

definition get_object :: "env \<Rightarrow> request \<Rightarrow> uuid \<Rightarrow> world \<Rightarrow> Conversation lookup \<times> session \<times> world" where
  "get_object e rq pk w =
     (case get_queryset e rq w of
        (queryset, s1, w1) \<Rightarrow> (get_object_or_404 (filter (\<lambda>c. conv_id c = pk) queryset), s1, w1))"

definition lookup_response :: "'a lookup \<Rightarrow> ('a \<Rightarrow> 'b) \<Rightarrow> 'b response" where
  "lookup_response r f =
     (case r of
        Http404 \<Rightarrow> Not_Found
      | MultipleObjectsReturned \<Rightarrow> Uncaught ''MultipleObjectsReturned''
      | Found x \<Rightarrow> OK (f x))"

text \<open>\<open>retrieve\<close> (fetch one conversation) and \<open>list\<close> of the \<open>ModelViewSet\<close>.\<close>

definition retrieve :: "env \<Rightarrow> request \<Rightarrow> uuid \<Rightarrow> world \<Rightarrow> Conversation response \<times> session \<times> world" where
  "retrieve e rq pk w =
     (case get_object e rq pk w of (r, s1, w1) \<Rightarrow> (lookup_response r (\<lambda>c. c), s1, w1))"

definition list_conversations ::
  "env \<Rightarrow> request \<Rightarrow> world \<Rightarrow> Conversation list response \<times> session \<times> world"
where
  "list_conversations e rq w =
     (case get_queryset e rq w of
        (queryset, s1, w1) \<Rightarrow> (OK (rev (sort_key conv_updated_at queryset)), s1, w1))"

text \<open>The action \<open>messages\<close>, lines 69-75.\<close>

definition messages_action ::
  "env \<Rightarrow> request \<Rightarrow> uuid \<Rightarrow> world \<Rightarrow> Message list response \<times> session \<times> world"
where
  "messages_action e rq pk w =
     (case get_object e rq pk w of
        (r, s1, w1) \<Rightarrow> (lookup_response r (\<lambda>c. conversation_messages (conv_id c) w1), s1, w1))"

text \<open>\<open>_call_ai_service\<close>, lines 199-224. \<open>messages[:-1]\<close> is \<open>butlast\<close>.\<close>

definition ai_payload :: "string \<Rightarrow> Conversation \<Rightarrow> real \<Rightarrow> int \<Rightarrow> world \<Rightarrow> ChatPayload" where
  "ai_payload message conversation temperature max_tokens w =
     (let msgs = map (\<lambda>m. \<lparr> content = msg_content m, role = msg_role m \<rparr>)
                   (conversation_messages (conv_id conversation) w)
      in \<lparr> p_message = message, p_conversation_history = butlast msgs,
           p_temperature = temperature, p_max_tokens = max_tokens \<rparr>)"

definition call_ai_service ::
  "env \<Rightarrow> string \<Rightarrow> Conversation \<Rightarrow> real \<Rightarrow> int \<Rightarrow> world \<Rightarrow> ai_json outcome"
where
  "call_ai_service e message conversation temperature max_tokens w =
     (case post e (ai_payload message conversation temperature max_tokens w) of
        Transport_error err \<Rightarrow> Raise err
      | Http_response status text body \<Rightarrow>
          if status = 200 then body
          else Raise (''AI service returned status '' @ str_nat status @ '': '' @ text))"

text \<open>The steps of \<open>chat\<close>, lines 77-197.\<close>

record chat_result =
  res_conversation_id :: uuid
  res_user_message :: Message
  res_assistant_message :: Message
  res_tokens_used :: int
  res_response_time_ms :: int
  res_is_guest :: bool

text \<open>Lines 93-100: the caller is a user or a guest session.\<close>

definition identify :: "env \<Rightarrow> request \<Rightarrow> world \<Rightarrow> uuid option \<times> string option \<times> session \<times> world" where
  "identify e rq w =
     (case user rq of
        Some u \<Rightarrow> (Some u, None, session rq, w)
      | None \<Rightarrow>
          (case get_or_create_guest_session e (session rq) w of
             (session_id, s1, w1) \<Rightarrow> (None, Some session_id, s1, w1)))"

text \<open>Line 111: the title of a conversation created by its first message.\<close>

definition chat_title :: "string \<Rightarrow> string" where
  "chat_title message_content =
     (if length message_content > 50 then take 50 message_content @ ''...''
      else message_content)"

text \<open>Lines 102-118: the conversation of the request, fetched for its owner or created.\<close>

definition get_or_create_conversation ::
  "env \<Rightarrow> uuid option \<Rightarrow> string option \<Rightarrow> uuid option \<Rightarrow> string \<Rightarrow> world
    \<Rightarrow> (Conversation \<times> world) lookup"
where
  "get_or_create_conversation e usr guest conversation_id message_content w =
     (case conversation_id of
        Some cid \<Rightarrow>
          (case get_object_or_404
                  (filter (\<lambda>c. conv_id c = cid
                                \<and> (case usr of Some u \<Rightarrow> conv_user c = Some u
                                    | None \<Rightarrow> conv_guest_session_id c = guest))
                     (conversations (db w))) of
             Http404 \<Rightarrow> Http404
           | MultipleObjectsReturned \<Rightarrow> MultipleObjectsReturned
           | Found c \<Rightarrow> Found (c, w))
      | None \<Rightarrow>
          (case usr of
             Some u \<Rightarrow> Found (Conversation_create e (Some u) None (chat_title message_content) w)
           | None \<Rightarrow> Found (Conversation_create e None guest (chat_title message_content) w)))"

text \<open>
  Lines 159-164 and 187-192: the usage record of the request, for the user or for the
  guest session.
\<close>

definition log_usage :: "env \<Rightarrow> uuid option \<Rightarrow> string option \<Rightarrow> int \<Rightarrow> int \<Rightarrow> int \<Rightarrow> world
    \<Rightarrow> APIUsage \<times> world" where
  "log_usage e usr guest tokens ms status w =
     (case usr of
        Some u \<Rightarrow> APIUsage_create e (Some u) None ''chat'' tokens ms status w
      | None \<Rightarrow> APIUsage_create e None guest ''chat'' tokens ms status w)"

text \<open>
  Lines 127-176, the body of the \<open>try\<close> block. It raises before it writes anything: in
  \<open>_call_ai_service\<close>, or by \<open>KeyError\<close> at \<open>ai_response['content']\<close>.
\<close>

definition chat_try ::
  "env \<Rightarrow> uuid option \<Rightarrow> string option \<Rightarrow> Conversation \<Rightarrow> Message \<Rightarrow> validated_data \<Rightarrow> real
    \<Rightarrow> world \<Rightarrow> (chat_result \<times> world) outcome"
where
  "chat_try e usr guest conversation user_message v start_time w =
     (case call_ai_service e (v_message v) conversation (v_temperature v) (v_max_tokens v) w of
        Raise err \<Rightarrow> Raise err
      | Return ai_response \<Rightarrow>
          (case j_content ai_response of
             None \<Rightarrow> Raise (apostrophe @ ''content'' @ apostrophe)
           | Some reply \<Rightarrow>
               (let tokens = (case j_tokens_used ai_response of None \<Rightarrow> 0 | Some n \<Rightarrow> n);
                    mdl = (case j_model ai_response of None \<Rightarrow> ''gemini'' | Some m \<Rightarrow> m)
                in case Message_create e (conv_id conversation) reply ''assistant''
                          [(''tokens_used'', JInt tokens), (''model'', JStr mdl),
                           (''temperature'', JFloat (v_temperature v)),
                           (''max_tokens'', JInt (v_max_tokens v))] w of
                     (assistant_message, w1) \<Rightarrow>
                  case read_clock e w1 of (now, w2) \<Rightarrow>
                    (let ms = py_int ((now - start_time) * 1000)
                     in case log_usage e usr guest tokens ms 200 w2 of
                          (usage, w3) \<Rightarrow>
                            Return (\<lparr> res_conversation_id = conv_id conversation,
                                      res_user_message = user_message,
                                      res_assistant_message = assistant_message,
                                      res_tokens_used = tokens,
                                      res_response_time_ms = ms,
                                      res_is_guest = (usr = None) \<rparr>, w3)))))"

text \<open>Lines 120-197: the turn on the resolved conversation, with the \<open>except\<close> handler.\<close>

definition chat_turn ::
  "env \<Rightarrow> uuid option \<Rightarrow> string option \<Rightarrow> Conversation \<Rightarrow> validated_data \<Rightarrow> real \<Rightarrow> world
    \<Rightarrow> chat_result response \<times> world"
where
  "chat_turn e usr guest conversation v start_time w =
     (case Message_create e (conv_id conversation) (v_message v) ''user'' [] w of
        (user_message, w1) \<Rightarrow>
          (case chat_try e usr guest conversation user_message v start_time w1 of
             Return (result, w2) \<Rightarrow> (OK result, w2)
           | Raise err \<Rightarrow>
               (case read_clock e w1 of (now, w2) \<Rightarrow>
                  (let ms = py_int ((now - start_time) * 1000)
                   in case log_usage e usr guest 0 ms 500 w2 of
                        (usage, w3) \<Rightarrow> (Server_Error (''AI service error: '' @ err), w3)))))"

definition chat :: "env \<Rightarrow> request \<Rightarrow> chat_data \<Rightarrow> world \<Rightarrow> chat_result response \<times> session \<times> world" where
  "chat e rq data w =
     (case read_clock e w of (start_time, w0) \<Rightarrow>
        (case ChatRequestSerializer data of
           Inl errors \<Rightarrow> (Bad_Request errors, session rq, w0)
         | Inr v \<Rightarrow>
             (case identify e rq w0 of
                (usr, guest, s1, w1) \<Rightarrow>
                  (case get_or_create_conversation e usr guest (v_conversation_id v)
                          (v_message v) w1 of
                     Http404 \<Rightarrow> (Not_Found, s1, w1)
                   | MultipleObjectsReturned \<Rightarrow> (Uncaught ''MultipleObjectsReturned'', s1, w1)
                   | Found (conversation, w2) \<Rightarrow>
                       (case chat_turn e usr guest conversation v start_time w2 of
                          (resp, w3) \<Rightarrow> (resp, s1, w3))))))"



section \<open>Notions used in the statements\<close>

text \<open>
  Two rows of the table of conversations that agree on every column but \<open>updated_at\<close>.
\<close>

definition unchanged_but_updated_at :: "Conversation \<Rightarrow> Conversation \<Rightarrow> bool" where
  "unchanged_but_updated_at c c' =
     (conv_id c' = conv_id c \<and> conv_user c' = conv_user c
      \<and> conv_guest_session_id c' = conv_guest_session_id c \<and> title c' = title c
      \<and> conv_created_at c' = conv_created_at c)"


text \<open>
  A concrete environment and world for the examples: the clock reads 100, 101, ...
  seconds, the identifiers are \<open>uuid-0\<close>, \<open>uuid-1\<close>, ..., and the AI service answers every
  request with status 200 and a well-formed body.
\<close>

definition example_env :: env where
  "example_env =
     \<lparr> clock = (\<lambda>k. 100 + real k),
       uuid4 = (\<lambda>k. ''uuid-'' @ str_nat k),
       new_session_key = (\<lambda>k. ''key-'' @ str_nat k),
       post = (\<lambda>p. Http_response 200 ''{...}''
                 (Return \<lparr> j_content = Some ''Hi there'', j_tokens_used = Some 7,
                           j_model = Some ''mock-model'' \<rparr>)) \<rparr>"

definition example_conversation :: Conversation where
  "example_conversation =
     \<lparr> conv_id = ''c-1'', conv_user = Some ''alice'', conv_guest_session_id = None,
       title = ''First'', conv_created_at = 10, conv_updated_at = 20 \<rparr>"

definition other_conversation :: Conversation where
  "other_conversation =
     \<lparr> conv_id = ''c-2'', conv_user = None, conv_guest_session_id = Some ''guest-9'',
       title = ''Second'', conv_created_at = 30, conv_updated_at = 40 \<rparr>"

definition example_message :: Message where
  "example_message =
     \<lparr> msg_id = ''m-1'', msg_conversation = ''c-1'', msg_content = ''Earlier'',
       msg_role = ''user'', metadata = [], msg_created_at = 20 \<rparr>"

definition example_world :: world where
  "example_world =
     \<lparr> db = \<lparr> conversations = [example_conversation, other_conversation],
              messages = [example_message], api_usage = [] \<rparr>,
       ticks = 0, draws = 0 \<rparr>"

definition alice :: request where
  "alice = \<lparr> user = Some ''alice'', session = \<lparr> session_key = None, guest_session_id = None \<rparr> \<rparr>"

definition new_guest :: request where
  "new_guest = \<lparr> user = None, session = \<lparr> session_key = None, guest_session_id = None \<rparr> \<rparr>"

text \<open>
  The same environment with an AI service that is unavailable, and a request of Alice
  into her conversation \<open>c-1\<close>.
\<close>

definition failing_env :: env where
  "failing_env =
     example_env\<lparr>post := (\<lambda>p. Http_response 503 ''Service Unavailable'' (Raise ''no body''))\<rparr>"

definition hello_data :: chat_data where
  "hello_data = \<lparr> d_message = Some '' Hello '', d_conversation_id = Some ''c-1'',
                  d_temperature = None, d_max_tokens = None \<rparr>"

definition hello_validated :: validated_data where
  "hello_validated = \<lparr> v_message = ''Hello'', v_conversation_id = Some ''c-1'',
                       v_temperature = 0.7, v_max_tokens = 1000 \<rparr>"

text \<open>A request of Alice into the conversation \<open>c-2\<close>, which is another owner's.\<close>

definition foreign_data :: chat_data where
  "foreign_data = \<lparr> d_message = Some ''Hello'', d_conversation_id = Some ''c-2'',
                    d_temperature = Some 1, d_max_tokens = Some 100 \<rparr>"

definition foreign_validated :: validated_data where
  "foreign_validated = \<lparr> v_message = ''Hello'', v_conversation_id = Some ''c-2'',
                         v_temperature = 1, v_max_tokens = 100 \<rparr>"





text \<open>
  A run of the server as seen by the sessions of its clients: client \<open>i\<close> sends a request
  that resolves its guest identity, or some other operation draws an identifier.
  \<open>tokens_apart\<close> is the invariant of such runs: every stored guest id is one of the
  identifiers drawn so far, and no two sessions hold the same one.
\<close>

datatype event = Resolve nat | Other_draw

fun serve :: "env \<Rightarrow> event list \<Rightarrow> (nat \<Rightarrow> session) \<times> world \<Rightarrow> (nat \<Rightarrow> session) \<times> world" where
  "serve e [] st = st"
| "serve e (Resolve i # evs) (ss, w) =
     (case get_or_create_guest_session e (ss i) w of
        (session_id, s', w') \<Rightarrow> serve e evs (ss(i := s'), w'))"
| "serve e (Other_draw # evs) (ss, w) = serve e evs (ss, w\<lparr>draws := Suc (draws w)\<rparr>)"

definition tokens_apart :: "env \<Rightarrow> (nat \<Rightarrow> session) \<Rightarrow> world \<Rightarrow> bool" where
  "tokens_apart e ss w =
     ((\<forall>i a. guest_session_id (ss i) = Some a \<longrightarrow> (\<exists>k < draws w. a = uuid4 e k))
      \<and> (\<forall>i j a. i \<noteq> j \<longrightarrow> guest_session_id (ss i) = Some a
            \<longrightarrow> guest_session_id (ss j) \<noteq> Some a))"

text \<open>
  An environment whose identifiers are \<open>a\<close>, \<open>aa\<close>, \<open>aaa\<close>, ..., and clients whose sessions
  are all new.
\<close>

definition counting_env :: env where
  "counting_env = example_env\<lparr>uuid4 := (\<lambda>k. replicate (Suc k) (CHR ''a''))\<rparr>"

definition fresh_sessions :: "nat \<Rightarrow> session" where
  "fresh_sessions i = \<lparr> session_key = None, guest_session_id = None \<rparr>"






section \<open>Closed forms of the database operations\<close>

lemma Conversation_create_eq:
  "Conversation_create e usr guest ttl w =
     (\<lparr> conv_id = uuid4 e (draws w), conv_user = usr, conv_guest_session_id = guest,
        title = ttl, conv_created_at = clock e (ticks w),
        conv_updated_at = clock e (Suc (ticks w)) \<rparr>,
      w\<lparr>db := (db w)\<lparr>conversations := conversations (db w) @
                [\<lparr> conv_id = uuid4 e (draws w), conv_user = usr, conv_guest_session_id = guest,
                    title = ttl, conv_created_at = clock e (ticks w),
                    conv_updated_at = clock e (Suc (ticks w)) \<rparr>]\<rparr>,
        ticks := Suc (Suc (ticks w)), draws := Suc (draws w)\<rparr>)"
  by (simp add: Conversation_create_def draw_uuid_def read_clock_def Let_def)

lemma Message_create_eq:
  "Message_create e cid cont rl meta w =
     (\<lparr> msg_id = uuid4 e (draws w), msg_conversation = cid, msg_content = cont,
        msg_role = rl, metadata = meta, msg_created_at = clock e (ticks w) \<rparr>,
      w\<lparr>db := (db w)\<lparr>messages := messages (db w) @
                [\<lparr> msg_id = uuid4 e (draws w), msg_conversation = cid, msg_content = cont,
                    msg_role = rl, metadata = meta, msg_created_at = clock e (ticks w) \<rparr>],
              conversations := map (touch cid (clock e (ticks w + 2))) (conversations (db w))\<rparr>,
        ticks := ticks w + 3, draws := Suc (draws w)\<rparr>)"
  by (simp add: Message_create_def draw_uuid_def read_clock_def Let_def)

lemma log_usage_eq:
  "log_usage e usr guest tokens ms status w =
     (\<lparr> usage_id = uuid4 e (draws w), usage_user = usr,
        usage_guest_session_id = (case usr of Some u \<Rightarrow> None | None \<Rightarrow> guest),
        endpoint = ''chat'', tokens_used = tokens, response_time_ms = Some ms,
        status_code = Some status, usage_created_at = clock e (ticks w) \<rparr>,
      w\<lparr>db := (db w)\<lparr>api_usage := api_usage (db w) @
                [\<lparr> usage_id = uuid4 e (draws w), usage_user = usr,
                    usage_guest_session_id = (case usr of Some u \<Rightarrow> None | None \<Rightarrow> guest),
                    endpoint = ''chat'', tokens_used = tokens, response_time_ms = Some ms,
                    status_code = Some status, usage_created_at = clock e (ticks w) \<rparr>]\<rparr>,
        ticks := Suc (ticks w), draws := Suc (draws w)\<rparr>)"
  by (simp add: log_usage_def APIUsage_create_def draw_uuid_def read_clock_def Let_def
      split: option.splits)

lemma touch_unchanged: "unchanged_but_updated_at c (touch cid t c)"
  by (simp add: unchanged_but_updated_at_def touch_def)

lemma touch_updated_at:
  "conv_updated_at (touch cid t c) = (if conv_id c = cid then t else conv_updated_at c)"
  by (simp add: touch_def)

lemma list_all2_map_touch:
  "list_all2 (\<lambda>c c'. unchanged_but_updated_at c c'
                \<and> conv_updated_at c' = (if conv_id c = cid then t else conv_updated_at c))
     cs (map (touch cid t) cs)"
  by (simp add: list_all2_map2 list.rel_refl touch_unchanged touch_updated_at)

section \<open>Properties of the AI service\<close>

lemma length_mock_responses: "length (mock_responses message) = 4"
  by (simp add: mock_responses_def)

text \<open>
  Claim C10. When no backend model is configured (\<open>model\<close> is \<open>None\<close>),
  \<open>generate_response\<close> returns the mock response at index \<open>len(message) mod 4\<close> of the four
  templates, with model \<open>mock-model\<close> and \<open>tokens_used\<close> the word count of the response plus
  the word count of the message; the result depends on the message alone (and on the two
  clock readings for the response time). For the message \<open>Hello\<close> this is the template at
  index 1, and the token count is 14 + 1.
\<close>

theorem mock_response_deterministic:
  assumes "model self = None"
  shows "generate_response self message conversation_history temperature max_tokens start_time now
         = Return \<lparr> r_content = mock_responses message ! (length message mod 4),
                    r_tokens_used =
                      int (length (split (mock_responses message ! (length message mod 4))))
                      + int (length (split message)),
                    r_model = ''mock-model'',
                    r_response_time_ms = py_int ((now - start_time) * 1000) \<rparr>
         \<and> generate_response self ''Hello'' conversation_history temperature max_tokens start_time now
         = Return \<lparr> r_content =
                      ''This is a demo response from the AI service. The system is working correctly!'',
                    r_tokens_used = 15,
                    r_model = ''mock-model'',
                    r_response_time_ms = py_int ((now - start_time) * 1000) \<rparr>"
proof -
  have general: "generate_response self m conversation_history temperature max_tokens start_time now
         = Return \<lparr> r_content = mock_responses m ! (length m mod 4),
                    r_tokens_used = int (length (split (mock_responses m ! (length m mod 4))))
                                    + int (length (split m)),
                    r_model = ''mock-model'',
                    r_response_time_ms = py_int ((now - start_time) * 1000) \<rparr>" for m
    using assms
    by (simp add: generate_response_def generate_response_try_def generate_mock_response_def
        length_mock_responses Let_def)
  have idx: "mock_responses ''Hello'' ! (length ''Hello'' mod 4)
             = ''This is a demo response from the AI service. The system is working correctly!''"
    by (simp add: mock_responses_def)
  have words_reply: "length (split
           ''This is a demo response from the AI service. The system is working correctly!'') = 14"
    by (simp add: split_def isspace_def)
  have words_hello: "length (split ''Hello'') = 1"
    by (simp add: split_def isspace_def)
  show ?thesis
    using general [of message] general [of "''Hello''"]
    by (simp only: idx words_reply words_hello) simp
qed

theorem mock_response_deterministic_witness:
  "generate_response \<lparr> model_name = ''gemini-1.5-flash'', model = None \<rparr> ''Hi there'' [] 0.7 1000 2 3
   = Return \<lparr> r_content =
                 ''I'm a mock AI assistant. To get real responses, please configure your GEMINI_API_KEY.'',
               r_tokens_used = 15,
               r_model = ''mock-model'',
               r_response_time_ms = 1000 \<rparr>"
proof -
  have no_model: "model \<lparr> model_name = ''gemini-1.5-flash'', model = None \<rparr> = None"
    by simp
  have idx: "mock_responses ''Hi there'' ! (length ''Hi there'' mod 4)
             = ''I'm a mock AI assistant. To get real responses, please configure your GEMINI_API_KEY.''"
    by (simp add: mock_responses_def)
  have words_reply: "length (split
      ''I'm a mock AI assistant. To get real responses, please configure your GEMINI_API_KEY.'') = 13"
    by (simp add: split_def isspace_def)
  have words_msg: "length (split ''Hi there'') = 2"
    by (simp add: split_def isspace_def)
  have ms: "py_int ((3 - 2) * 1000) = 1000"
    by (simp add: py_int_def)
  have step: "generate_response \<lparr> model_name = ''gemini-1.5-flash'', model = None \<rparr>
                ''Hi there'' [] 0.7 1000 2 3
         = Return \<lparr> r_content = mock_responses ''Hi there'' ! (length ''Hi there'' mod 4),
                    r_tokens_used =
                      int (length (split (mock_responses ''Hi there'' ! (length ''Hi there'' mod 4))))
                      + int (length (split ''Hi there'')),
                    r_model = ''mock-model'',
                    r_response_time_ms = py_int ((3 - 2) * 1000) \<rparr>"
    using mock_response_deterministic [OF no_model, of "''Hi there''" "[]" "0.7" 1000 2 3]
    by (rule conjunct1)
  show ?thesis
    unfolding step idx words_reply words_msg ms by simp
qed

text \<open>
  Claim C6. \<open>generate_response\<close> always returns and never raises, whatever the model call
  does. When the model call raises an exception with text \<open>e\<close>, the result is the apology
  string embedding \<open>e\<close>, with \<open>tokens_used = 20\<close>, the configured model name (or
  \<open>error-model\<close> when that name is empty) and the elapsed time between the two clock
  readings.
\<close>

theorem generate_response_never_raises:
  "(\<exists>r. generate_response self message conversation_history temperature max_tokens start_time now
         = Return r)
   \<and> (\<forall>generate_content e.
         model self = Some generate_content
         \<and> generate_content (prepare_context conversation_history message)
              \<lparr> gc_temperature = temperature, max_output_tokens = max_tokens,
                top_p = 0.8, top_k = 40 \<rparr> = Raise e
         \<longrightarrow> generate_response self message conversation_history temperature max_tokens
               start_time now
             = Return \<lparr> r_content = ''I apologize, but I encountered an error: '' @ e
                                      @ ''. Please try again later.'',
                        r_tokens_used = 20,
                        r_model = (if model_name self \<noteq> [] then model_name self
                                   else ''error-model''),
                        r_response_time_ms = py_int ((now - start_time) * 1000) \<rparr>)"
  by (auto simp add: generate_response_def generate_response_try_def generate_error_response_def
      Let_def split: option.splits outcome.splits)

theorem generate_response_never_raises_witness:
  "generate_response
     \<lparr> model_name = ''gemini-1.5-flash'', model = Some (\<lambda>prompt config. Raise ''quota exceeded'') \<rparr>
     ''Hello'' [] 0.7 1000 10 10.25
   = Return \<lparr> r_content =
                 ''I apologize, but I encountered an error: quota exceeded. Please try again later.'',
               r_tokens_used = 20,
               r_model = ''gemini-1.5-flash'',
               r_response_time_ms = 250 \<rparr>"
proof -
  have ms: "py_int 250 = 250"
    by (simp add: py_int_def)
  show ?thesis
    using generate_response_never_raises
      [of "\<lparr> model_name = ''gemini-1.5-flash'',
              model = Some (\<lambda>prompt config. Raise ''quota exceeded'') \<rparr>"
          "''Hello''" "[]" "0.7" 1000 10 "10.25"]
    by (simp add: ms)
qed

section \<open>Properties of the backend\<close>

text \<open>
  Claim C8. Appending a message (\<open>Message.save\<close> for a new row) refreshes \<open>updated_at\<close> of
  the parent conversation to a reading of the clock taken during the append (the last
  of the three readings the append takes; the first is the message's \<open>created_at\<close>), and
  leaves \<open>id\<close>, owner, \<open>title\<close> and \<open>created_at\<close> of every conversation as they were; the
  other conversations keep their \<open>updated_at\<close> too.
\<close>

theorem message_append_refreshes_updated_at:
  assumes "Message_create e cid cont rl meta w = (m, w')"
  shows "messages (db w') = messages (db w) @ [m]
         \<and> msg_conversation m = cid
         \<and> msg_created_at m = clock e (ticks w)
         \<and> ticks w' = ticks w + 3
         \<and> list_all2 (\<lambda>c c'. unchanged_but_updated_at c c'
                \<and> conv_updated_at c' = (if conv_id c = cid then clock e (ticks w + 2)
                                         else conv_updated_at c))
              (conversations (db w)) (conversations (db w'))"
  using assms list_all2_map_touch [of cid "clock e (ticks w + 2)" "conversations (db w)"]
  by (auto simp add: Message_create_eq)

theorem message_append_refreshes_updated_at_witness:
  "\<exists>m w'. Message_create example_env ''c-1'' ''Hello'' ''user'' [] example_world = (m, w')
     \<and> conversations (db w') =
         [example_conversation\<lparr>conv_updated_at := 102\<rparr>, other_conversation]
     \<and> messages (db w') = [example_message, m]"
proof -
  obtain m w' where
    run: "Message_create example_env ''c-1'' ''Hello'' ''user'' [] example_world = (m, w')"
    by (cases "Message_create example_env ''c-1'' ''Hello'' ''user'' [] example_world")
  have reading: "clock example_env (ticks example_world + 2) = 102"
    by (simp add: example_world_def example_env_def)
  from message_append_refreshes_updated_at [OF run, unfolded reading]
  have msgs: "messages (db w') = [example_message, m]"
    and rows: "list_all2 (\<lambda>c c'. unchanged_but_updated_at c c'
                 \<and> conv_updated_at c' = (if conv_id c = ''c-1'' then 102 else conv_updated_at c))
               [example_conversation, other_conversation] (conversations (db w'))"
    by (simp_all add: example_world_def example_env_def)
  from rows obtain a b where
    ab: "conversations (db w') = [a, b]"
    and a: "unchanged_but_updated_at example_conversation a" "conv_updated_at a = 102"
    and b: "unchanged_but_updated_at other_conversation b" "conv_updated_at b = 40"
    by (auto simp add: list_all2_Cons1 example_conversation_def other_conversation_def)
  have "a = example_conversation\<lparr>conv_updated_at := 102\<rparr>"
    using a by (simp add: unchanged_but_updated_at_def example_conversation_def)
  moreover have "b = other_conversation"
    using b by (simp add: unchanged_but_updated_at_def other_conversation_def)
  ultimately show ?thesis
    using run ab msgs by simp
qed

lemma serializer_rejects:
  assumes "(\<exists>text. d_message data = Some text \<and> (strip text = [] \<or> length (strip text) > 2000))
         \<or> (\<exists>t. d_temperature data = Some t \<and> (t < 0 \<or> 2 < t))
         \<or> (\<exists>n. d_max_tokens data = Some n \<and> (n < 1 \<or> 4000 < n))"
  shows "\<exists>errors. errors \<noteq> [] \<and> ChatRequestSerializer data = Inl errors"
  using assms
  by (auto simp add: ChatRequestSerializer_def message_field_def temperature_field_def
      max_tokens_field_def field_errors_def validate_message_def
      split: sum.splits option.splits)

text \<open>
  Claim C5. A chat request whose message is empty after trimming or, trimmed, longer
  than 2000 characters, or whose temperature is outside \<open>[0, 2]\<close>, or whose \<open>max_tokens\<close> is
  outside \<open>[1, 4000]\<close>, is answered with the validation errors (status 400); the database
  is as before (no conversation, message or usage record), no identifier is drawn, and
  the session is returned as it came. The only trace is the reading of the clock at
  entry.
\<close>

theorem invalid_chat_request_has_no_effect:
  assumes "(\<exists>text. d_message data = Some text \<and> (strip text = [] \<or> length (strip text) > 2000))
         \<or> (\<exists>t. d_temperature data = Some t \<and> (t < 0 \<or> 2 < t))
         \<or> (\<exists>n. d_max_tokens data = Some n \<and> (n < 1 \<or> 4000 < n))"
  shows "\<exists>errors w'. errors \<noteq> []
           \<and> chat e rq data w = (Bad_Request errors, session rq, w')
           \<and> db w' = db w \<and> draws w' = draws w"
proof -
  from serializer_rejects [OF assms] obtain errors where
    "errors \<noteq> []" "ChatRequestSerializer data = Inl errors" by blast
  then show ?thesis
    by (simp add: chat_def read_clock_def)
qed

theorem invalid_chat_request_has_no_effect_witness:
  "\<exists>errors w'. chat example_env new_guest
       \<lparr> d_message = Some ''   '', d_conversation_id = None,
         d_temperature = Some 2.5, d_max_tokens = Some 0 \<rparr> example_world
     = (Bad_Request errors, session new_guest, w') \<and> errors \<noteq> [] \<and> db w' = db example_world"
proof -
  have bad:
    "(\<exists>text. d_message \<lparr> d_message = Some ''   '', d_conversation_id = None,
                 d_temperature = Some 2.5, d_max_tokens = Some 0 \<rparr> = Some text
        \<and> (strip text = [] \<or> length (strip text) > 2000))
     \<or> (\<exists>t. d_temperature \<lparr> d_message = Some ''   '', d_conversation_id = None,
                 d_temperature = Some 2.5, d_max_tokens = Some 0 \<rparr> = Some t \<and> (t < 0 \<or> 2 < t))
     \<or> (\<exists>n. d_max_tokens \<lparr> d_message = Some ''   '', d_conversation_id = None,
                 d_temperature = Some 2.5, d_max_tokens = Some 0 \<rparr> = Some n
        \<and> (n < 1 \<or> 4000 < n))"
    by (simp add: strip_def isspace_def)
  from invalid_chat_request_has_no_effect [OF bad, of example_env new_guest example_world]
  show ?thesis by blast
qed

lemma guest_session_effect:
  assumes "get_or_create_guest_session e s w = (sid, s', w')"
  shows "db w' = db w \<and> ticks w' = ticks w \<and> draws w \<le> draws w'
         \<and> guest_session_id s' = Some sid
         \<and> ((guest_session_id s = Some sid \<and> sid \<noteq> [])
            \<or> sid \<in> uuid4 e ` {draws w ..< draws w'})"
  using assms
  by (auto simp add: get_or_create_guest_session_def session_create_def
      new_guest_session_id_def draw_uuid_def split: if_splits option.splits prod.splits)

lemma guest_session_ticks:
  "get_or_create_guest_session e s (w\<lparr>ticks := t\<rparr>) =
     (case get_or_create_guest_session e s w of (sid, s', w') \<Rightarrow> (sid, s', w'\<lparr>ticks := t\<rparr>))"
  by (simp add: get_or_create_guest_session_def session_create_def
      new_guest_session_id_def draw_uuid_def split: option.splits)

lemma identify_effect:
  assumes "identify e rq w = (usr, guest, s1, w1)"
  shows "db w1 = db w \<and> ticks w1 = ticks w \<and> draws w \<le> draws w1 \<and> usr = user rq
         \<and> (usr = None) \<noteq> (guest = None)"
proof (cases "user rq")
  case None
  then show ?thesis
    using assms guest_session_effect [of e "session rq" w]
    by (auto simp add: identify_def split: prod.splits)
next
  case (Some u)
  with assms have "usr = Some u" "guest = None" "w1 = w"
    by (simp_all add: identify_def)
  with Some show ?thesis by simp
qed

lemma created_conversation_effect:
  assumes "get_or_create_conversation e usr guest None message_content w = r"
  shows "\<exists>c w'. r = Found (c, w')
           \<and> conversations (db w') = conversations (db w) @ [c]
           \<and> messages (db w') = messages (db w) \<and> api_usage (db w') = api_usage (db w)
           \<and> conv_id c = uuid4 e (draws w)
           \<and> conv_user c = usr
           \<and> conv_guest_session_id c = (case usr of Some u \<Rightarrow> None | None \<Rightarrow> guest)
           \<and> title c = chat_title message_content"
  using assms
  by (auto simp add: get_or_create_conversation_def Conversation_create_eq split: option.splits)

lemma fetched_conversation_effect:
  assumes "get_or_create_conversation e usr guest (Some cid) message_content w = Found (c, w')"
  shows "w' = w
         \<and> filter (\<lambda>c. conv_id c = cid
                        \<and> (case usr of Some u \<Rightarrow> conv_user c = Some u
                            | None \<Rightarrow> conv_guest_session_id c = guest))
             (conversations (db w)) = [c]"
proof -
  have one: "get_object_or_404 xs = Found x \<Longrightarrow> xs = [x]" for xs :: "Conversation list" and x
    by (cases xs rule: get_object_or_404.cases) simp_all
  show ?thesis
    using assms
    by (auto simp add: get_or_create_conversation_def split: lookup.splits dest: one)
qed


lemma chat_resolved:
  assumes "ChatRequestSerializer data = Inr v"
      and "identify e rq (w\<lparr>ticks := Suc (ticks w)\<rparr>) = (usr, guest, s1, w1)"
      and "get_or_create_conversation e usr guest (v_conversation_id v) (v_message v) w1
           = Found (conversation, w2)"
  shows "chat e rq data w =
           (case chat_turn e usr guest conversation v (clock e (ticks w)) w2 of
              (resp, w3) \<Rightarrow> (resp, s1, w3))"
  using assms by (simp add: chat_def read_clock_def)

lemma chat_turn_success:
  assumes um: "Message_create e (conv_id conversation) (v_message v) ''user'' [] w = (um, wu)"
      and call: "call_ai_service e (v_message v) conversation (v_temperature v) (v_max_tokens v) wu
                 = Return j"
      and reply: "j_content j = Some reply"
  shows "\<exists>am u r w'. chat_turn e usr guest conversation v start w = (OK r, w')
           \<and> messages (db w') = messages (db w) @ [um, am]
           \<and> msg_role am = ''assistant'' \<and> msg_content am = reply
           \<and> msg_conversation am = conv_id conversation
           \<and> api_usage (db w') = api_usage (db w) @ [u]
           \<and> status_code u = Some 200
           \<and> tokens_used u = (case j_tokens_used j of None \<Rightarrow> 0 | Some n \<Rightarrow> n)
           \<and> res_user_message r = um \<and> res_assistant_message r = am
           \<and> res_tokens_used r = tokens_used u
           \<and> res_conversation_id r = conv_id conversation
           \<and> conversations (db w') =
               map (touch (conv_id conversation) (clock e (ticks w + 5)))
                 (map (touch (conv_id conversation) (clock e (ticks w + 2)))
                    (conversations (db w)))"
  using assms
  by (auto simp add: chat_turn_def chat_try_def Message_create_eq log_usage_eq read_clock_def
      Let_def add.commute)

lemma chat_turn_failure:
  assumes um: "Message_create e (conv_id conversation) (v_message v) ''user'' [] w = (um, wu)"
      and call: "\<nexists>j reply. call_ai_service e (v_message v) conversation (v_temperature v)
                              (v_max_tokens v) wu = Return j \<and> j_content j = Some reply"
  shows "\<exists>u err w'. chat_turn e usr guest conversation v start w
                      = (Server_Error (''AI service error: '' @ err), w')
           \<and> messages (db w') = messages (db w) @ [um]
           \<and> api_usage (db w') = api_usage (db w) @ [u]
           \<and> status_code u = Some 500 \<and> tokens_used u = 0
           \<and> (\<forall>x. call_ai_service e (v_message v) conversation (v_temperature v)
                      (v_max_tokens v) wu = Raise x \<longrightarrow> err = x)
           \<and> conversations (db w') =
               map (touch (conv_id conversation) (clock e (ticks w + 2))) (conversations (db w))"
proof (cases "call_ai_service e (v_message v) conversation (v_temperature v) (v_max_tokens v) wu")
  case (Raise x)
  with um show ?thesis
    by (auto simp add: chat_turn_def chat_try_def Message_create_eq log_usage_eq read_clock_def
        Let_def)
next
  case (Return j)
  with call have "j_content j = None" by (cases "j_content j") auto
  with um Return show ?thesis
    by (auto simp add: chat_turn_def chat_try_def Message_create_eq log_usage_eq read_clock_def
        Let_def)
qed

lemma resolved_tables:
  assumes "get_or_create_conversation e usr guest conversation_id message_content w1
           = Found (conversation, w2)"
  shows "messages (db w2) = messages (db w1) \<and> api_usage (db w2) = api_usage (db w1)"
proof (cases conversation_id)
  case None
  with assms created_conversation_effect [of e usr guest message_content w1]
  show ?thesis by auto
next
  case (Some cid)
  with assms fetched_conversation_effect [of e usr guest cid message_content w1 conversation w2]
  show ?thesis by simp
qed

lemma str_nat_503: "str_nat 503 = ''503''"
  by code_simp


lemma hello_valid: "ChatRequestSerializer hello_data = Inr hello_validated"
  by (simp add: ChatRequestSerializer_def hello_data_def hello_validated_def message_field_def
      temperature_field_def max_tokens_field_def validate_message_def strip_def isspace_def)

lemma alice_identified:
  "identify e alice w = (Some ''alice'', None, session alice, w)"
  by (simp add: identify_def alice_def)

lemma alice_conversation:
  "get_or_create_conversation e (Some ''alice'') None (v_conversation_id hello_validated)
     (v_message hello_validated) (example_world\<lparr>ticks := Suc (ticks example_world)\<rparr>)
   = Found (example_conversation, example_world\<lparr>ticks := Suc (ticks example_world)\<rparr>)"
  by (simp add: get_or_create_conversation_def hello_validated_def example_world_def
      example_conversation_def other_conversation_def)

text \<open>
  Claim C1. A chat invocation that passes validation and whose conversation is resolved
  (fetched for the caller, or created) appends exactly one user message and exactly one
  usage record. When the AI call succeeds, that is \<open>_call_ai_service\<close> returns a body that
  has \<open>content\<close>, exactly one assistant message follows the user message and the usage
  record has status 200 and the token count of the reply (0 when the reply has none).
  In every other case (the call raises, or the body has no \<open>content\<close>) no assistant
  message is created and the usage record has status 500 and 0 tokens.
\<close>

theorem chat_creates_messages_and_usage:
  assumes valid: "ChatRequestSerializer data = Inr v"
      and ident: "identify e rq (w\<lparr>ticks := Suc (ticks w)\<rparr>) = (usr, guest, s1, w1)"
      and resolved: "get_or_create_conversation e usr guest (v_conversation_id v) (v_message v) w1
                     = Found (conversation, w2)"
      and user_message: "Message_create e (conv_id conversation) (v_message v) ''user'' [] w2
                         = (um, wu)"
  shows "\<exists>resp w'. chat e rq data w = (resp, s1, w')
           \<and> msg_role um = ''user'' \<and> msg_content um = v_message v
           \<and> msg_conversation um = conv_id conversation
           \<and> (\<forall>j reply.
                 call_ai_service e (v_message v) conversation (v_temperature v) (v_max_tokens v) wu
                   = Return j \<and> j_content j = Some reply
                 \<longrightarrow> (\<exists>am u r. resp = OK r
                        \<and> messages (db w') = messages (db w) @ [um, am]
                        \<and> msg_role am = ''assistant'' \<and> msg_content am = reply
                        \<and> msg_conversation am = conv_id conversation
                        \<and> api_usage (db w') = api_usage (db w) @ [u]
                        \<and> status_code u = Some 200
                        \<and> tokens_used u = (case j_tokens_used j of None \<Rightarrow> 0 | Some n \<Rightarrow> n)))
           \<and> ((\<nexists>j reply.
                 call_ai_service e (v_message v) conversation (v_temperature v) (v_max_tokens v) wu
                   = Return j \<and> j_content j = Some reply)
                 \<longrightarrow> (\<exists>u err. resp = Server_Error (''AI service error: '' @ err)
                        \<and> messages (db w') = messages (db w) @ [um]
                        \<and> api_usage (db w') = api_usage (db w) @ [u]
                        \<and> status_code u = Some 500 \<and> tokens_used u = 0))"
proof -
  let ?call = "call_ai_service e (v_message v) conversation (v_temperature v) (v_max_tokens v) wu"
  let ?start = "clock e (ticks w)"
  have tables: "messages (db w2) = messages (db w)" "api_usage (db w2) = api_usage (db w)"
    using identify_effect [OF ident] resolved_tables [OF resolved] by simp_all
  have um: "msg_role um = ''user''" "msg_content um = v_message v"
    "msg_conversation um = conv_id conversation"
    using user_message by (auto simp add: Message_create_eq)
  have whole: "chat e rq data w =
                 (case chat_turn e usr guest conversation v ?start w2 of
                    (resp, w3) \<Rightarrow> (resp, s1, w3))"
    by (rule chat_resolved [OF valid ident resolved])
  show ?thesis
  proof (cases "\<exists>j reply. ?call = Return j \<and> j_content j = Some reply")
    case True
    then obtain j reply where call: "?call = Return j" and reply: "j_content j = Some reply"
      by blast
    from chat_turn_success [OF user_message call reply, of usr guest ?start]
    obtain am u r w' where
      "chat_turn e usr guest conversation v ?start w2 = (OK r, w')"
      "messages (db w') = messages (db w2) @ [um, am]"
      "msg_role am = ''assistant''" "msg_content am = reply"
      "msg_conversation am = conv_id conversation"
      "api_usage (db w') = api_usage (db w2) @ [u]"
      "status_code u = Some 200"
      "tokens_used u = (case j_tokens_used j of None \<Rightarrow> 0 | Some n \<Rightarrow> n)"
      by blast
    with whole tables um call reply show ?thesis
      by auto
  next
    case False
    from chat_turn_failure [OF user_message False, of usr guest ?start]
    obtain u err w' where
      "chat_turn e usr guest conversation v ?start w2
         = (Server_Error (''AI service error: '' @ err), w')"
      "messages (db w') = messages (db w2) @ [um]"
      "api_usage (db w') = api_usage (db w2) @ [u]"
      "status_code u = Some 500" "tokens_used u = 0"
      by blast
    with whole tables um False show ?thesis
      by auto
  qed
qed


theorem chat_creates_messages_and_usage_witness:
  "(\<exists>r s w'. chat example_env alice hello_data example_world = (OK r, s, w')
      \<and> map msg_role (messages (db w')) = [''user'', ''user'', ''assistant'']
      \<and> map status_code (api_usage (db w')) = [Some 200]
      \<and> map tokens_used (api_usage (db w')) = [7])
   \<and> (\<exists>err s w'. chat failing_env alice hello_data example_world = (Server_Error err, s, w')
      \<and> map msg_role (messages (db w')) = [''user'', ''user'']
      \<and> map status_code (api_usage (db w')) = [Some 500]
      \<and> map tokens_used (api_usage (db w')) = [0])"
proof
  let ?w1 = "example_world\<lparr>ticks := Suc (ticks example_world)\<rparr>"
  obtain um wu where
    um: "Message_create example_env (conv_id example_conversation) (v_message hello_validated)
           ''user'' [] ?w1 = (um, wu)"
    by (cases "Message_create example_env (conv_id example_conversation)
                 (v_message hello_validated) ''user'' [] ?w1")
  have call: "call_ai_service example_env (v_message hello_validated) example_conversation
                (v_temperature hello_validated) (v_max_tokens hello_validated) wu
              = Return \<lparr> j_content = Some ''Hi there'', j_tokens_used = Some 7,
                         j_model = Some ''mock-model'' \<rparr>"
    by (simp add: call_ai_service_def example_env_def)
  have before: "messages (db example_world) = [example_message]"
    "api_usage (db example_world) = []" "msg_role example_message = ''user''"
    by (simp_all add: example_world_def example_message_def)
  from chat_creates_messages_and_usage
         [OF hello_valid alice_identified alice_conversation um]
  show "\<exists>r s w'. chat example_env alice hello_data example_world = (OK r, s, w')
      \<and> map msg_role (messages (db w')) = [''user'', ''user'', ''assistant'']
      \<and> map status_code (api_usage (db w')) = [Some 200]
      \<and> map tokens_used (api_usage (db w')) = [7]"
    unfolding call before(1,2) by (auto simp add: before(3))
next
  let ?w1 = "example_world\<lparr>ticks := Suc (ticks example_world)\<rparr>"
  obtain um wu where
    um: "Message_create failing_env (conv_id example_conversation) (v_message hello_validated)
           ''user'' [] ?w1 = (um, wu)"
    by (cases "Message_create failing_env (conv_id example_conversation)
                 (v_message hello_validated) ''user'' [] ?w1")
  have call: "call_ai_service failing_env (v_message hello_validated) example_conversation
                (v_temperature hello_validated) (v_max_tokens hello_validated) wu
              = Raise ''AI service returned status 503: Service Unavailable''"
    by (simp add: call_ai_service_def failing_env_def example_env_def str_nat_503)
  have before: "messages (db example_world) = [example_message]"
    "api_usage (db example_world) = []" "msg_role example_message = ''user''"
    by (simp_all add: example_world_def example_message_def)
  from chat_creates_messages_and_usage
         [OF hello_valid alice_identified alice_conversation um]
  show "\<exists>err s w'. chat failing_env alice hello_data example_world = (Server_Error err, s, w')
      \<and> map msg_role (messages (db w')) = [''user'', ''user'']
      \<and> map status_code (api_usage (db w')) = [Some 500]
      \<and> map tokens_used (api_usage (db w')) = [0]"
    unfolding call before(1,2) by (auto simp add: before(3))
qed






text \<open>
  Claim C3. When no conversation with the requested id belongs to the requesting owner
  (the authenticated user, or the guest session id the request resolves to), fetching
  it, listing its messages and posting a chat message into it each end in \<open>Http404\<close>,
  and the listing of the caller's conversations does not contain it. The database is
  the same afterwards: no conversation, message or usage record is created or modified.
\<close>

theorem foreign_conversation_not_found:
  assumes foreign:
    "\<forall>c \<in> set (conversations (db w)). conv_id c = cid \<longrightarrow>
       (case user rq of
          Some u \<Rightarrow> conv_user c \<noteq> Some u
        | None \<Rightarrow> conv_guest_session_id c
                  \<noteq> Some (fst (get_or_create_guest_session e (session rq) w)))"
    and valid: "ChatRequestSerializer data = Inr v"
    and target: "v_conversation_id v = Some cid"
  shows "(\<exists>s' w'. chat e rq data w = (Not_Found, s', w') \<and> db w' = db w)
       \<and> (\<exists>s' w'. retrieve e rq cid w = (Not_Found, s', w') \<and> db w' = db w)
       \<and> (\<exists>s' w'. messages_action e rq cid w = (Not_Found, s', w') \<and> db w' = db w)
       \<and> (\<exists>cs s' w'. list_conversations e rq w = (OK cs, s', w')
              \<and> cid \<notin> conv_id ` set cs \<and> db w' = db w)"
proof (cases "user rq")
  case (Some u)
  with foreign have none: "filter (\<lambda>c. conv_id c = cid \<and> conv_user c = Some u)
                             (conversations (db w)) = []"
    by (auto simp add: filter_empty_conv)
  then have none': "filter (\<lambda>c. conv_id c = cid)
                      (filter (\<lambda>c. conv_user c = Some u) (conversations (db w))) = []"
    by (simp add: conj_commute)
  have "chat e rq data w = (Not_Found, session rq, w\<lparr>ticks := Suc (ticks w)\<rparr>)"
    using Some valid target none
    by (simp add: chat_def read_clock_def identify_def get_or_create_conversation_def)
  moreover have "retrieve e rq cid w = (Not_Found, session rq, w)"
    using Some none'
    by (simp add: retrieve_def get_object_def get_queryset_def lookup_response_def)
  moreover have "messages_action e rq cid w = (Not_Found, session rq, w)"
    using Some none'
    by (simp add: messages_action_def get_object_def get_queryset_def lookup_response_def)
  moreover have "\<exists>cs. list_conversations e rq w = (OK cs, session rq, w)
                   \<and> cid \<notin> conv_id ` set cs"
    using Some foreign
    by (auto simp add: list_conversations_def get_queryset_def)
  ultimately show ?thesis by auto
next
  case None
  obtain sid s1 w1 where
    g: "get_or_create_guest_session e (session rq) w = (sid, s1, w1)"
    by (cases "get_or_create_guest_session e (session rq) w")
  let ?w0 = "w\<lparr>ticks := Suc (ticks w)\<rparr>"
  have g0: "get_or_create_guest_session e (session rq) ?w0
            = (sid, s1, w1\<lparr>ticks := Suc (ticks w)\<rparr>)"
    using g by (simp add: guest_session_ticks)
  from guest_session_effect [OF g] have db1: "db w1 = db w" by simp
  from foreign None g
  have none: "filter (\<lambda>c. conv_id c = cid \<and> conv_guest_session_id c = Some sid)
                (conversations (db w)) = []"
    by (auto simp add: filter_empty_conv)
  then have none': "filter (\<lambda>c. conv_id c = cid)
                      (filter (\<lambda>c. conv_guest_session_id c = Some sid)
                         (conversations (db w))) = []"
    by (simp add: conj_commute)
  have "chat e rq data w = (Not_Found, s1, w1\<lparr>ticks := Suc (ticks w)\<rparr>)"
    using None valid target none g0 db1
    by (simp add: chat_def read_clock_def identify_def get_or_create_conversation_def)
  moreover have "retrieve e rq cid w = (Not_Found, s1, w1)"
    using None none' g db1
    by (simp add: retrieve_def get_object_def get_queryset_def lookup_response_def)
  moreover have "messages_action e rq cid w = (Not_Found, s1, w1)"
    using None none' g db1
    by (simp add: messages_action_def get_object_def get_queryset_def lookup_response_def)
  moreover have "\<exists>cs. list_conversations e rq w = (OK cs, s1, w1)
                   \<and> cid \<notin> conv_id ` set cs"
    using None foreign g db1
    by (auto simp add: list_conversations_def get_queryset_def)
  ultimately show ?thesis using db1 by auto
qed


lemma foreign_valid: "ChatRequestSerializer foreign_data = Inr foreign_validated"
  by (simp add: ChatRequestSerializer_def foreign_data_def foreign_validated_def
      message_field_def temperature_field_def max_tokens_field_def validate_message_def
      strip_def isspace_def)

theorem foreign_conversation_not_found_witness:
  "(\<exists>s' w'. chat example_env alice foreign_data example_world = (Not_Found, s', w')
      \<and> db w' = db example_world)
   \<and> (\<exists>s' w'. retrieve example_env alice ''c-2'' example_world = (Not_Found, s', w')
      \<and> db w' = db example_world)
   \<and> (\<exists>s' w'. messages_action example_env alice ''c-2'' example_world = (Not_Found, s', w')
      \<and> db w' = db example_world)"
proof -
  have foreign:
    "\<forall>c \<in> set (conversations (db example_world)). conv_id c = ''c-2'' \<longrightarrow>
       (case user alice of
          Some u \<Rightarrow> conv_user c \<noteq> Some u
        | None \<Rightarrow> conv_guest_session_id c
                  \<noteq> Some (fst (get_or_create_guest_session example_env (session alice)
                                 example_world)))"
    by (simp add: example_world_def alice_def example_conversation_def other_conversation_def)
  have target: "v_conversation_id foreign_validated = Some ''c-2''"
    by (simp add: foreign_validated_def)
  from foreign_conversation_not_found [OF foreign foreign_valid target]
  show ?thesis by blast
qed

lemma guest_session_stable:
  assumes "guest_session_id s = Some sid" and "sid \<noteq> []"
  shows "\<exists>s' w'. get_or_create_guest_session e s w = (sid, s', w') \<and> db w' = db w
                 \<and> guest_session_id s' = Some sid"
  using assms
  by (simp add: get_or_create_guest_session_def session_create_def)

lemma guest_session_nonempty:
  assumes "get_or_create_guest_session e s w = (sid, s', w')" and "\<forall>k. uuid4 e k \<noteq> []"
  shows "sid \<noteq> []"
  using guest_session_effect [OF assms(1)] assms(2) by (auto, metis)












lemma tokens_apart_resolve:
  assumes inv: "tokens_apart e ss w"
      and unique: "inj (uuid4 e)" and nonempty: "\<forall>k. uuid4 e k \<noteq> []"
      and g: "get_or_create_guest_session e (ss i) w = (sid, s', w')"
  shows "tokens_apart e (ss(i := s')) w'"
proof -
  from guest_session_effect [OF g]
  have mono: "draws w \<le> draws w'" and stored: "guest_session_id s' = Some sid"
    and src: "(guest_session_id (ss i) = Some sid \<and> sid \<noteq> [])
              \<or> sid \<in> uuid4 e ` {draws w ..< draws w'}"
    by simp_all
  from inv have drawn: "\<And>j a. guest_session_id (ss j) = Some a \<Longrightarrow> \<exists>k < draws w. a = uuid4 e k"
    and apart: "\<And>j l a. j \<noteq> l \<Longrightarrow> guest_session_id (ss j) = Some a
                  \<Longrightarrow> guest_session_id (ss l) \<noteq> Some a"
    by (auto simp add: tokens_apart_def)
  have drawn': "\<exists>k < draws w'. a = uuid4 e k" if "guest_session_id (ss j) = Some a" for j a
  proof -
    from drawn [OF that] obtain k where k: "k < draws w" "a = uuid4 e k" by blast
    from k(1) mono have "k < draws w'" by simp
    with k(2) show ?thesis by blast
  qed
  have sid_drawn: "\<exists>k < draws w'. sid = uuid4 e k"
    using src drawn' [of i sid] by auto
  have sid_new: "guest_session_id (ss j) \<noteq> Some sid" if "j \<noteq> i" for j
  proof (cases "guest_session_id (ss i) = Some sid")
    case True
    with apart [of i j sid] that show ?thesis by auto
  next
    case False
    with src obtain k where k: "draws w \<le> k" "sid = uuid4 e k" by auto
    show ?thesis
    proof
      assume "guest_session_id (ss j) = Some sid"
      from drawn [OF this] obtain k' where "k' < draws w" "sid = uuid4 e k'" by blast
      with k unique show False by (auto dest: injD)
    qed
  qed
  show ?thesis
    unfolding tokens_apart_def
  proof (intro conjI allI impI)
    fix j a assume "guest_session_id ((ss(i := s')) j) = Some a"
    then show "\<exists>k < draws w'. a = uuid4 e k"
      using sid_drawn stored drawn' [of j a] by (cases "j = i") auto
  next
    fix j l a assume "j \<noteq> l" "guest_session_id ((ss(i := s')) j) = Some a"
    then show "guest_session_id ((ss(i := s')) l) \<noteq> Some a"
      using stored sid_new apart [of j l a] by (cases "j = i"; cases "l = i") auto
  qed
qed

lemma tokens_apart_draw:
  "tokens_apart e ss w \<Longrightarrow> tokens_apart e ss (w\<lparr>draws := Suc (draws w)\<rparr>)"
  by (auto simp add: tokens_apart_def less_Suc_eq)

lemma tokens_apart_serve:
  assumes "inj (uuid4 e)" and "\<forall>k. uuid4 e k \<noteq> []"
  shows "tokens_apart e ss w \<Longrightarrow> serve e evs (ss, w) = (ss', w') \<Longrightarrow> tokens_apart e ss' w'"
proof (induction evs arbitrary: ss w)
  case Nil
  then show ?case by simp
next
  case (Cons ev evs)
  show ?case
  proof (cases ev)
    case (Resolve i)
    obtain sid s1 w1 where g: "get_or_create_guest_session e (ss i) w = (sid, s1, w1)"
      by (cases "get_or_create_guest_session e (ss i) w")
    from Cons.prems(2) Resolve g have "serve e evs (ss(i := s1), w1) = (ss', w')" by simp
    with Cons.IH tokens_apart_resolve [OF Cons.prems(1) assms g] show ?thesis by blast
  next
    case Other_draw
    with Cons.prems(2) have "serve e evs (ss, w\<lparr>draws := Suc (draws w)\<rparr>) = (ss', w')" by simp
    with Cons.IH tokens_apart_draw [OF Cons.prems(1)] show ?thesis by blast
  qed
qed

text \<open>
  Claim C9. Let the generator of identifiers never return the same value twice and never
  the empty text (what a universally-unique identifier generator provides). Then the
  first call of \<open>get_or_create_guest_session\<close> on a session without guest id stores a newly
  drawn identifier in the session and returns it; after any call, every later call on
  the resulting session returns the same token and leaves it stored; and in every run
  that starts from sessions without guest id, two different sessions never hold the
  same token.
\<close>

theorem guest_session_id_stable_and_unique:
  assumes unique: "inj (uuid4 e)" and nonempty: "\<forall>k. uuid4 e k \<noteq> []"
  shows "(guest_session_id s = None
            \<longrightarrow> (\<exists>k s' w'. get_or_create_guest_session e s w = (uuid4 e k, s', w')
                    \<and> guest_session_id s' = Some (uuid4 e k)
                    \<and> draws w \<le> k \<and> k < draws w'))
       \<and> (\<forall>sid s' w'. get_or_create_guest_session e s w = (sid, s', w')
            \<longrightarrow> (\<forall>later. \<exists>s'' later'.
                    get_or_create_guest_session e s' later = (sid, s'', later')
                    \<and> guest_session_id s'' = Some sid))
       \<and> (\<forall>ss w'' i j a b.
             (\<forall>i. guest_session_id (ss0 i) = None) \<and> serve e evs (ss0, w0) = (ss, w'')
             \<and> i \<noteq> j \<and> guest_session_id (ss i) = Some a \<and> guest_session_id (ss j) = Some b
             \<longrightarrow> a \<noteq> b)"
proof (intro conjI allI impI)
  assume none: "guest_session_id s = None"
  obtain sid s' w' where g: "get_or_create_guest_session e s w = (sid, s', w')"
    by (cases "get_or_create_guest_session e s w")
  from guest_session_effect [OF g] none
  obtain k where "sid = uuid4 e k" "draws w \<le> k" "k < draws w'"
    and "guest_session_id s' = Some sid" by auto
  with g show "\<exists>k s' w'. get_or_create_guest_session e s w = (uuid4 e k, s', w')
                    \<and> guest_session_id s' = Some (uuid4 e k)
                    \<and> draws w \<le> k \<and> k < draws w'" by blast
next
  fix sid s' w' later
  assume g: "get_or_create_guest_session e s w = (sid, s', w')"
  from guest_session_effect [OF g] guest_session_nonempty [OF g nonempty]
  have "guest_session_id s' = Some sid" "sid \<noteq> []" by simp_all
  from guest_session_stable [OF this, of e later]
  show "\<exists>s'' later'. get_or_create_guest_session e s' later = (sid, s'', later')
                    \<and> guest_session_id s'' = Some sid" by blast
next
  fix ss w'' i j a b
  assume h: "(\<forall>i. guest_session_id (ss0 i) = None) \<and> serve e evs (ss0, w0) = (ss, w'')
             \<and> i \<noteq> j \<and> guest_session_id (ss i) = Some a \<and> guest_session_id (ss j) = Some b"
  then have "tokens_apart e ss0 w0" by (simp add: tokens_apart_def)
  from tokens_apart_serve [OF unique nonempty this] h have "tokens_apart e ss w''" by blast
  with h show "a \<noteq> b" by (auto simp add: tokens_apart_def)
qed


theorem guest_session_id_stable_and_unique_witness:
  "\<exists>ss w. serve counting_env [Resolve 0, Resolve 1, Other_draw, Resolve 0]
             (fresh_sessions, example_world) = (ss, w)
     \<and> guest_session_id (ss 0) = Some ''aa''
     \<and> guest_session_id (ss 1) = Some ''aaaa''
     \<and> guest_session_id (ss 0) \<noteq> guest_session_id (ss 1)"
proof -
  have unique: "inj (uuid4 counting_env)"
  proof (rule injI)
    fix x y assume "uuid4 counting_env x = uuid4 counting_env y"
    then have "length (replicate (Suc x) (CHR ''a'')) = length (replicate (Suc y) (CHR ''a''))"
      by (simp add: counting_env_def)
    then show "x = y" by simp
  qed
  have nonempty: "\<forall>k. uuid4 counting_env k \<noteq> []"
    by (simp add: counting_env_def)
  obtain ss w where
    run: "serve counting_env [Resolve 0, Resolve 1, Other_draw, Resolve 0]
            (fresh_sessions, example_world) = (ss, w)"
    by (cases "serve counting_env [Resolve 0, Resolve 1, Other_draw, Resolve 0]
                 (fresh_sessions, example_world)")
  have tokens: "guest_session_id (ss 0) = Some ''aa''" "guest_session_id (ss 1) = Some ''aaaa''"
    using run
    by (auto simp add: get_or_create_guest_session_def session_create_def
        new_guest_session_id_def draw_uuid_def fresh_sessions_def counting_env_def
        example_env_def example_world_def numeral_eq_Suc)
  have start: "\<forall>i. guest_session_id (fresh_sessions i) = None"
    by (simp add: fresh_sessions_def)
  from guest_session_id_stable_and_unique [OF unique nonempty, THEN conjunct2, THEN conjunct2,
         rule_format, of fresh_sessions _ example_world ss w 0 1 "''aa''" "''aaaa''"]
       start run tokens
  have "''aa'' \<noteq> ''aaaa''" by simp
  with run tokens show ?thesis by simp
qed


















end
